theory Spec2Isabelle
  imports Main "HOL-Library.Word"
begin

section \<open>Data model (main.go, lines 21-46)\<close>

type_synonym byte = "8 word"

text \<open>
  \<^verbatim>\<open>net.UDPAddr\<close>: an IP (a byte slice, 4 or 16 bytes long when well formed), a port and
  an IPv6 zone. Go's \<^verbatim>\<open>int\<close> fields are modelled as \<open>int\<close>: the program does no arithmetic
  on them.
\<close>

record UDPAddr =
  IP :: "byte list"
  Port :: int
  Zone :: string

text \<open>A bound socket: a handle and the local address it is bound to.\<close>

record UDPConn =
  fd :: nat
  laddr :: UDPAddr

record Config =
  ListenPort :: int
  ListenAddr :: string
  TargetAddrs :: "string list"
  BufferSize :: int
  Verbose :: bool
  ShowVersion :: bool

text \<open>The counters are \<^verbatim>\<open>uint64\<close>: addition wraps around at \<open>2 ^ 64\<close>.\<close>

record Stats =
  PacketsReceived :: "64 word"
  PacketsForwarded :: "64 word"
  BytesReceived :: "64 word"
  BytesForwarded :: "64 word"
  Errors :: "64 word"

text \<open>
  The fields of \<^verbatim>\<open>Relay\<close> that are values. The stop channel and the wait group are part
  of the run state below.
\<close>

record Relay =
  config :: Config
  conn :: UDPConn
  targetConns :: "UDPAddr list"
  stats :: Stats

section \<open>Stats (main.go, lines 48-66)\<close>

text \<open>
  Each method holds the mutex for its whole body, so each is one atomic update.
  \<^verbatim>\<open>uint64(bytes)\<close> converts a Go \<^verbatim>\<open>int\<close>: \<open>word_of_int\<close>.
\<close>

definition zero_stats :: Stats where
  "zero_stats = \<lparr>PacketsReceived = 0, PacketsForwarded = 0, BytesReceived = 0,
     BytesForwarded = 0, Errors = 0\<rparr>"

definition AddReceived :: "int \<Rightarrow> Stats \<Rightarrow> Stats" where
  "AddReceived bytes s =
     s\<lparr>PacketsReceived := PacketsReceived s + 1,
       BytesReceived := BytesReceived s + word_of_int bytes\<rparr>"

definition AddForwarded :: "int \<Rightarrow> Stats \<Rightarrow> Stats" where
  "AddForwarded bytes s =
     s\<lparr>PacketsForwarded := PacketsForwarded s + 1,
       BytesForwarded := BytesForwarded s + word_of_int bytes\<rparr>"

definition AddError :: "Stats \<Rightarrow> Stats" where
  "AddError s = s\<lparr>Errors := Errors s + 1\<rparr>"

section \<open>Log lines\<close>

text \<open>
  One constructor for each \<^verbatim>\<open>log.Printf\<close> and \<^verbatim>\<open>log.Println\<close> of main.go, with the
  arguments of the format string; the text of the line is not modelled.
\<close>

datatype log_entry =
    Log_Starting
  | Log_Listening string int
  | Log_ForwardingTo "string list"
  | Log_ReadBufferWarning string
  | Log_Received int UDPAddr
  | Log_Skipping UDPAddr
  | Log_ReadError string
  | Log_ConnectError UDPAddr string
  | Log_ForwardError UDPAddr string
  | Log_Forwarded int UDPAddr
  | Log_Stats Stats
  | Log_Stopping
  | Log_FinalStats Stats
  | Log_Stopped

section \<open>Configuration (parseConfig, main.go, lines 75-127)\<close>

text \<open>
  The values \<^verbatim>\<open>flag.Parse\<close> leaves in the flag variables. \<^verbatim>\<open>strings.Split\<close> with a one
  character separator: the pieces between the separators, \<open>[[]]\<close> for the empty string.
  \<^verbatim>\<open>strings.TrimSpace\<close> (Unicode white space) is a parameter of \<open>parseConfig\<close>.
\<close>

record Flags =
  flag_port :: int
  flag_listen :: string
  flag_targets :: string
  flag_buffer :: int
  flag_verbose :: bool
  flag_version :: bool

fun Split :: "char \<Rightarrow> string \<Rightarrow> string list" where
  "Split sep [] = [[]]"
| "Split sep (c # cs) =
     (if c = sep then [] # Split sep cs
      else (case Split sep cs of
              [] \<Rightarrow> [[c]]
            | p # ps \<Rightarrow> (c # p) # ps))"

text \<open>Lines 113-118: the loop over the pieces, keeping the non-empty trimmed ones.\<close>

fun collect_targets :: "(string \<Rightarrow> string) \<Rightarrow> string list \<Rightarrow> string list \<Rightarrow> string list" where
  "collect_targets TrimSpace [] acc = acc"
| "collect_targets TrimSpace (t # ts) acc =
     (let target = TrimSpace t in
      if target \<noteq> [] then collect_targets TrimSpace ts (acc @ [target])
      else collect_targets TrimSpace ts acc)"

text \<open>\<open>Inl code\<close> is \<^verbatim>\<open>os.Exit(code)\<close>.\<close>

definition parseConfig :: "(string \<Rightarrow> string) \<Rightarrow> Flags \<Rightarrow> int + Config" where
  "parseConfig TrimSpace fl =
     (if flag_version fl then Inl 0
      else if flag_targets fl = [] then Inl 1
      else
        let tas = collect_targets TrimSpace (Split (CHR '','') (flag_targets fl)) [] in
        if length tas = 0 then Inl 1
        else Inr \<lparr>ListenPort = flag_port fl, ListenAddr = flag_listen fl,
                  TargetAddrs = tas, BufferSize = flag_buffer fl,
                  Verbose = flag_verbose fl, ShowVersion = flag_version fl\<rparr>)"

section \<open>Construction (NewRelay, main.go, lines 129-165)\<close>

text \<open>
  The network library is a parameter: what \<^verbatim>\<open>net.ResolveUDPAddr\<close>, \<^verbatim>\<open>net.ListenUDP\<close> and
  \<^verbatim>\<open>SetReadBuffer\<close> return (\<open>Inl\<close>, or \<open>Some\<close> for \<open>SetReadBuffer\<close>, carries the error).
\<close>

record net_env =
  ResolveUDPAddr :: "string \<Rightarrow> string + UDPAddr"
  ListenUDP :: "UDPAddr \<Rightarrow> string + UDPConn"
  SetReadBuffer :: "UDPConn \<Rightarrow> int \<Rightarrow> string option"

text \<open>The three \<^verbatim>\<open>fmt.Errorf\<close> values of \<open>NewRelay\<close>.\<close>

datatype construct_error =
    Err_ResolveTarget string string
  | Err_ResolveListen string
  | Err_CreateSocket string

text \<open>What \<open>NewRelay\<close> does to the outside world, in order.\<close>

datatype effect =
    Called_ResolveUDPAddr string
  | Called_ListenUDP UDPAddr
  | Called_SetReadBuffer UDPConn int
  | Logged log_entry

text \<open>\<^verbatim>\<open>%d\<close> of \<^verbatim>\<open>fmt.Sprintf\<close>: decimal digits, with a minus sign for a negative number.\<close>

definition digit_char :: "nat \<Rightarrow> char" where
  "digit_char d = ''0123456789'' ! d"

fun show_nat :: "nat \<Rightarrow> string" where
  "show_nat n =
     (if n < 10 then [digit_char n]
      else show_nat (n div 10) @ [digit_char (n mod 10)])"

definition show_int :: "int \<Rightarrow> string" where
  "show_int i = (if i < 0 then CHR ''-'' # show_nat (nat (- i)) else show_nat (nat i))"

text \<open>Line 146: \<^verbatim>\<open>fmt.Sprintf("%s:%d", config.ListenAddr, config.ListenPort)\<close>.\<close>

definition Listen_addr_string :: "Config \<Rightarrow> string" where
  "Listen_addr_string cfg = ListenAddr cfg @ '':'' @ show_int (ListenPort cfg)"

text \<open>Lines 137-143: the loop over the target strings; the first failure returns.\<close>

fun resolve_targets ::
  "net_env \<Rightarrow> string list \<Rightarrow> UDPAddr list \<Rightarrow> effect list \<Rightarrow>
   (construct_error + UDPAddr list) \<times> effect list" where
  "resolve_targets env [] acc tr = (Inr acc, tr)"
| "resolve_targets env (target # rest) acc tr =
     (case ResolveUDPAddr env target of
        Inl err \<Rightarrow> (Inl (Err_ResolveTarget target err), tr @ [Called_ResolveUDPAddr target])
      | Inr addr \<Rightarrow>
          resolve_targets env rest (acc @ [addr]) (tr @ [Called_ResolveUDPAddr target]))"

definition NewRelay :: "net_env \<Rightarrow> Config \<Rightarrow> (construct_error + Relay) \<times> effect list" where
  "NewRelay env cfg =
     (case resolve_targets env (TargetAddrs cfg) [] [] of
        (Inl e, tr) \<Rightarrow> (Inl e, tr)
      | (Inr tcs, tr) \<Rightarrow>
          let listenAddr = Listen_addr_string cfg;
              tr1 = tr @ [Called_ResolveUDPAddr listenAddr]
          in
          (case ResolveUDPAddr env listenAddr of
             Inl err \<Rightarrow> (Inl (Err_ResolveListen err), tr1)
           | Inr addr \<Rightarrow>
               let tr2 = tr1 @ [Called_ListenUDP addr] in
               (case ListenUDP env addr of
                  Inl err \<Rightarrow> (Inl (Err_CreateSocket err), tr2)
                | Inr c \<Rightarrow>
                    let tr3 = tr2 @ [Called_SetReadBuffer c (BufferSize cfg)];
                        r = \<lparr>config = cfg, conn = c, targetConns = tcs, stats = zero_stats\<rparr>
                    in
                    (case SetReadBuffer env c (BufferSize cfg) of
                       Some err \<Rightarrow> (Inr r, tr3 @ [Logged (Log_ReadBufferWarning err)])
                     | None \<Rightarrow> (Inr r, tr3)))))"

section \<open>The loop-prevention test (main.go, line 222)\<close>

text \<open>
  \<^verbatim>\<open>net.IP.Equal\<close> of the Go library: slices of the same length are compared byte by
  byte, and a 4-byte IPv4 address equals its 16-byte form (the prefix
  \<^verbatim>\<open>00 00 00 00 00 00 00 00 00 00 ff ff\<close> followed by the four bytes).
\<close>

definition v4InV6Prefix :: "byte list" where
  "v4InV6Prefix = [0, 0, 0, 0, 0, 0, 0, 0, 0, 0, 0xff, 0xff]"

definition IP_Equal :: "byte list \<Rightarrow> byte list \<Rightarrow> bool" where
  "IP_Equal ip x =
     (if length ip = length x then ip = x
      else if length ip = 4 \<and> length x = 16 then take 12 x = v4InV6Prefix \<and> ip = drop 12 x
      else if length ip = 16 \<and> length x = 4 then take 12 ip = v4InV6Prefix \<and> drop 12 ip = x
      else False)"

definition is_source :: "UDPAddr \<Rightarrow> UDPAddr \<Rightarrow> bool" where
  "is_source srcAddr tgt = (IP_Equal (IP srcAddr) (IP tgt) \<and> Port srcAddr = Port tgt)"

section \<open>The running relay\<close>

text \<open>
  The process after \<open>NewRelay\<close>: the goroutine of \<open>receiveLoop\<close>, the goroutine of
  \<open>statsReporter\<close>, one goroutine for each \<^verbatim>\<open>go r.forwardPacket(data, target)\<close> and the
  caller of \<open>Stop\<close>, interleaved. A program counter says where each of the three long
  lived ones stands; an event is one of them taking its next step.

  \<^verbatim>\<open>data := buffer[:n]\<close> is a slice of the receive buffer: it has a length of its own and
  shares the bytes. So a forward task holds the length \<open>n\<close> and reads the bytes from
  \<open>buffer\<close> when it writes.
\<close>

datatype loop_pc = L_Make | L_Select | L_Read | L_Exited | L_Panicked

datatype reporter_pc = R_NotStarted | R_Running | R_Exited

datatype stop_pc =
  S_NotCalled | S_CloseChan | S_CloseConn | S_Wait | S_LogFinal | S_LogStopped | S_Returned

record forward_task =
  data_len :: nat
  target :: UDPAddr

record run_state =
  relay :: Relay
  buffer :: "byte list"
  tasks :: "forward_task list"
  sent :: "(UDPAddr \<times> byte list) list"
  logs :: "log_entry list"
  stopChan_closed :: bool
  conn_closed :: bool
  wg :: int
  lpc :: loop_pc
  rpc :: reporter_pc
  spc :: stop_pc

text \<open>
  \<open>tasks\<close>: the forward goroutines started and not yet run. \<open>sent\<close>: the datagrams
  written to the network so far, each with its destination. \<open>wg\<close>: the counter of the
  wait group.
\<close>

definition log_line :: "log_entry \<Rightarrow> run_state \<Rightarrow> run_state" where
  "log_line l s = s\<lparr>logs := logs s @ [l]\<rparr>"

definition log_verbose :: "log_entry \<Rightarrow> run_state \<Rightarrow> run_state" where
  "log_verbose l s = (if Verbose (config (relay s)) then log_line l s else s)"

definition upd_stats :: "(Stats \<Rightarrow> Stats) \<Rightarrow> run_state \<Rightarrow> run_state" where
  "upd_stats f s = s\<lparr>relay := (relay s)\<lparr>stats := f (stats (relay s))\<rparr>\<rparr>"

subsection \<open>Start (main.go, lines 167-180)\<close>

definition Start :: "Relay \<Rightarrow> run_state" where
  "Start r =
     \<lparr>relay = r, buffer = [], tasks = [], sent = [],
      logs = [Log_Starting,
              Log_Listening (ListenAddr (config r)) (ListenPort (config r)),
              Log_ForwardingTo (TargetAddrs (config r))],
      stopChan_closed = False, conn_closed = False,
      wg = (if Verbose (config r) then 2 else 1),
      lpc = L_Make,
      rpc = (if Verbose (config r) then R_Running else R_NotStarted),
      spc = S_NotCalled\<rparr>"

subsection \<open>receiveLoop (main.go, lines 182-232)\<close>

text \<open>\<^verbatim>\<open>return\<close>, with the deferred \<^verbatim>\<open>r.wg.Done()\<close>.\<close>

definition loop_return :: "run_state \<Rightarrow> run_state" where
  "loop_return s = s\<lparr>wg := wg s - 1, lpc := L_Exited\<rparr>"

text \<open>Line 185. \<^verbatim>\<open>make\<close> with a negative length panics, which ends the process.\<close>

definition loop_make :: "run_state \<Rightarrow> run_state" where
  "loop_make s =
     (if BufferSize (config (relay s)) < 0 then s\<lparr>lpc := L_Panicked\<rparr>
      else s\<lparr>buffer := replicate (nat (BufferSize (config (relay s)))) 0, lpc := L_Select\<rparr>)"

text \<open>Lines 188-192.\<close>

definition loop_select :: "run_state \<Rightarrow> run_state" where
  "loop_select s = (if stopChan_closed s then loop_return s else s\<lparr>lpc := L_Read\<rparr>)"

text \<open>Lines 220-230: the loop over the targets.\<close>

fun forward_all :: "UDPAddr \<Rightarrow> nat \<Rightarrow> UDPAddr list \<Rightarrow> run_state \<Rightarrow> run_state" where
  "forward_all srcAddr n [] s = s"
| "forward_all srcAddr n (tgt # rest) s =
     (if IP_Equal (IP srcAddr) (IP tgt) \<and> Port srcAddr = Port tgt
      then forward_all srcAddr n rest (log_verbose (Log_Skipping tgt) s)
      else forward_all srcAddr n rest
             (s\<lparr>tasks := tasks s @ [\<lparr>data_len = n, target = tgt\<rparr>]\<rparr>))"

text \<open>
  What \<^verbatim>\<open>ReadFromUDP\<close> returns: \<open>n\<close> bytes and the source, or an error. An error that
  implements \<^verbatim>\<open>net.Error\<close> says whether it is a timeout.
\<close>

datatype read_error = NetError bool | OtherError

fun is_timeout :: "read_error \<Rightarrow> bool" where
  "is_timeout (NetError t) = t"
| "is_timeout OtherError = False"

datatype read_result = Read_ok "byte list" UDPAddr | Read_err read_error string

text \<open>
  Lines 195-231, from the return of \<^verbatim>\<open>ReadFromUDP\<close> to the end of the loop body. A read
  never returns more bytes than the buffer holds: such an event is not possible
  (\<open>None\<close>).
\<close>

definition loop_read :: "read_result \<Rightarrow> run_state \<Rightarrow> run_state option" where
  "loop_read res s =
     (case res of
        Read_err err msg \<Rightarrow>
          if is_timeout err then Some (s\<lparr>lpc := L_Select\<rparr>)
          else if stopChan_closed s then Some (loop_return s)
          else Some ((upd_stats AddError (log_line (Log_ReadError msg) s))\<lparr>lpc := L_Select\<rparr>)
      | Read_ok payload srcAddr \<Rightarrow>
          if length (buffer s) < length payload then None
          else
            let n = length payload;
                s1 = s\<lparr>buffer := payload @ drop n (buffer s)\<rparr>;
                s2 = upd_stats (AddReceived (int n)) s1;
                s3 = log_verbose (Log_Received (int n) srcAddr) s2;
                s4 = forward_all srcAddr n (targetConns (relay s3)) s3
            in Some (s4\<lparr>lpc := L_Select\<rparr>))"

subsection \<open>forwardPacket (main.go, lines 234-255)\<close>

text \<open>
  What \<^verbatim>\<open>net.DialUDP\<close> and \<^verbatim>\<open>conn.Write\<close> return. A write without error has written the
  whole slice (the contract of \<^verbatim>\<open>io.Writer\<close>), so its \<open>n\<close> is the length of the data.
\<close>

datatype dial_result = Dial_ok | Dial_err string

datatype write_result = Write_ok | Write_err string

definition forwardPacket ::
  "forward_task \<Rightarrow> dial_result \<Rightarrow> write_result \<Rightarrow> run_state \<Rightarrow> run_state" where
  "forwardPacket t d w s =
     (case d of
        Dial_err err \<Rightarrow> upd_stats AddError (log_line (Log_ConnectError (target t) err) s)
      | Dial_ok \<Rightarrow>
          (case w of
             Write_err err \<Rightarrow>
               upd_stats AddError (log_line (Log_ForwardError (target t) err) s)
           | Write_ok \<Rightarrow>
               let dat = take (data_len t) (buffer s);
                   n = length dat;
                   s1 = s\<lparr>sent := sent s @ [(target t, dat)]\<rparr>;
                   s2 = upd_stats (AddForwarded (int n)) s1
               in log_verbose (Log_Forwarded (int n) (target t)) s2))"

subsection \<open>statsReporter (main.go, lines 257-271)\<close>

definition reporter_tick :: "run_state \<Rightarrow> run_state option" where
  "reporter_tick s =
     (if rpc s = R_Running then Some (log_line (Log_Stats (stats (relay s))) s) else None)"

definition reporter_stop :: "run_state \<Rightarrow> run_state option" where
  "reporter_stop s =
     (if rpc s = R_Running \<and> stopChan_closed s
      then Some (s\<lparr>wg := wg s - 1, rpc := R_Exited\<rparr>) else None)"

subsection \<open>Stop (main.go, lines 273-280)\<close>

text \<open>
  One statement at a time; \<open>spc\<close> names the statement to run next. \<^verbatim>\<open>r.wg.Wait()\<close>
  returns only when the counter is zero.
\<close>

definition stop_step :: "run_state \<Rightarrow> run_state option" where
  "stop_step s =
     (case spc s of
        S_NotCalled \<Rightarrow> Some ((log_line Log_Stopping s)\<lparr>spc := S_CloseChan\<rparr>)
      | S_CloseChan \<Rightarrow> Some (s\<lparr>stopChan_closed := True, spc := S_CloseConn\<rparr>)
      | S_CloseConn \<Rightarrow> Some (s\<lparr>conn_closed := True, spc := S_Wait\<rparr>)
      | S_Wait \<Rightarrow> if wg s = 0 then Some (s\<lparr>spc := S_LogFinal\<rparr>) else None
      | S_LogFinal \<Rightarrow>
          Some ((log_line (Log_FinalStats (stats (relay s))) s)\<lparr>spc := S_LogStopped\<rparr>)
      | S_LogStopped \<Rightarrow> Some ((log_line Log_Stopped s)\<lparr>spc := S_Returned\<rparr>)
      | S_Returned \<Rightarrow> None)"

subsection \<open>Interleaving\<close>

text \<open>
  \<open>Forward i d w\<close>: the \<open>i\<close>-th outstanding forward goroutine runs, its dial and its
  write returning \<open>d\<close> and \<open>w\<close>. An event that cannot happen in a state gives \<open>None\<close>.
  Nothing happens after a panic, nor after \<open>Stop\<close> has returned (\<open>main\<close> returns then,
  and the process ends).
\<close>

datatype event =
    Loop_Make
  | Loop_Select
  | Loop_Read read_result
  | Forward nat dial_result write_result
  | Reporter_Tick
  | Reporter_Stop
  | Stop_Step

definition run_forward :: "nat \<Rightarrow> dial_result \<Rightarrow> write_result \<Rightarrow> run_state \<Rightarrow> run_state option" where
  "run_forward i d w s =
     (if i < length (tasks s)
      then Some (forwardPacket (tasks s ! i) d w
                   (s\<lparr>tasks := take i (tasks s) @ drop (Suc i) (tasks s)\<rparr>))
      else None)"

definition step :: "run_state \<Rightarrow> event \<Rightarrow> run_state option" where
  "step s e =
     (if lpc s = L_Panicked \<or> spc s = S_Returned then None
      else
        (case e of
           Loop_Make \<Rightarrow> if lpc s = L_Make then Some (loop_make s) else None
         | Loop_Select \<Rightarrow> if lpc s = L_Select then Some (loop_select s) else None
         | Loop_Read res \<Rightarrow> if lpc s = L_Read then loop_read res s else None
         | Forward i d w \<Rightarrow> run_forward i d w s
         | Reporter_Tick \<Rightarrow> reporter_tick s
         | Reporter_Stop \<Rightarrow> reporter_stop s
         | Stop_Step \<Rightarrow> stop_step s))"

fun run :: "run_state \<Rightarrow> event list \<Rightarrow> run_state option" where
  "run s [] = Some s"
| "run s (e # es) = (case step s e of None \<Rightarrow> None | Some s' \<Rightarrow> run s' es)"

subsection \<open>main (main.go, lines 282-298), up to the return of Start\<close>

datatype boot = Exit int | Fatal construct_error | Started run_state

definition main_boot :: "(string \<Rightarrow> string) \<Rightarrow> net_env \<Rightarrow> Flags \<Rightarrow> boot" where
  "main_boot TrimSpace env fl =
     (case parseConfig TrimSpace fl of
        Inl code \<Rightarrow> Exit code
      | Inr cfg \<Rightarrow>
          (case fst (NewRelay env cfg) of
             Inl e \<Rightarrow> Fatal e
           | Inr r \<Rightarrow> Started (Start r)))"

section \<open>Example values\<close>

text \<open>
  Scenario 3 of the specification: two targets, \<^verbatim>\<open>10.0.0.5:9999\<close> and \<^verbatim>\<open>10.0.0.6:9999\<close>, a
  relay listening on \<^verbatim>\<open>0.0.0.0:9999\<close> and a sender at \<^verbatim>\<open>192.168.1.50:4000\<close>. The buffer is
  eight bytes long to keep the states small.
\<close>

definition udp4 :: "byte \<Rightarrow> byte \<Rightarrow> byte \<Rightarrow> byte \<Rightarrow> int \<Rightarrow> UDPAddr" where
  "udp4 a b c d p = \<lparr>IP = [a, b, c, d], Port = p, Zone = []\<rparr>"

definition ex_target_a :: UDPAddr where
  "ex_target_a = udp4 10 0 0 5 9999"

definition ex_target_b :: UDPAddr where
  "ex_target_b = udp4 10 0 0 6 9999"

definition ex_source :: UDPAddr where
  "ex_source = udp4 192 168 1 50 4000"

definition ex_listen :: UDPAddr where
  "ex_listen = udp4 0 0 0 0 9999"

definition ex_config :: Config where
  "ex_config =
     \<lparr>ListenPort = 9999, ListenAddr = ''0.0.0.0'',
      TargetAddrs = [''10.0.0.5:9999'', ''10.0.0.6:9999''],
      BufferSize = 8, Verbose = False, ShowVersion = False\<rparr>"

definition ex_relay :: Relay where
  "ex_relay =
     \<lparr>config = ex_config, conn = \<lparr>fd = 3, laddr = ex_listen\<rparr>,
      targetConns = [ex_target_a, ex_target_b], stats = zero_stats\<rparr>"

text \<open>The relay of the example once its receive loop waits in \<^verbatim>\<open>ReadFromUDP\<close>.\<close>

definition ex_reading :: run_state where
  "ex_reading = (Start ex_relay)\<lparr>buffer := replicate 8 0, lpc := L_Read\<rparr>"

section \<open>Facts about the definitions\<close>

declare show_nat.simps [simp del]

lemmas helper_defs = log_line_def log_verbose_def upd_stats_def

lemmas ex_defs = ex_target_a_def ex_target_b_def ex_source_def ex_listen_def udp4_def
  ex_config_def ex_relay_def ex_reading_def Start_def zero_stats_def

lemma forward_all_tasks:
  "tasks (forward_all src n ts s) =
     tasks s @ map (\<lambda>t. \<lparr>data_len = n, target = t\<rparr>) (filter (\<lambda>t. \<not> is_source src t) ts)"
  by (induction ts arbitrary: s) (simp_all add: is_source_def helper_defs)

lemma forward_all_logs:
  "logs (forward_all src n ts s) =
     logs s @ (if Verbose (config (relay s)) then map Log_Skipping (filter (is_source src) ts)
               else [])"
  by (induction ts arbitrary: s) (simp_all add: is_source_def helper_defs)

lemma forward_all_frame:
  "relay (forward_all src n ts s) = relay s"
  "buffer (forward_all src n ts s) = buffer s"
  "sent (forward_all src n ts s) = sent s"
  "stopChan_closed (forward_all src n ts s) = stopChan_closed s"
  "conn_closed (forward_all src n ts s) = conn_closed s"
  "wg (forward_all src n ts s) = wg s"
  "lpc (forward_all src n ts s) = lpc s"
  "rpc (forward_all src n ts s) = rpc s"
  "spc (forward_all src n ts s) = spc s"
  by (induction ts arbitrary: s; simp add: helper_defs)+

lemma step_read_ok:
  assumes "step s (Loop_Read (Read_ok payload src)) = Some s'"
  shows "tasks s' = tasks s @ map (\<lambda>t. \<lparr>data_len = length payload, target = t\<rparr>)
                      (filter (\<lambda>t. \<not> is_source src t) (targetConns (relay s)))"
    and "sent s' = sent s"
    and "stats (relay s') = AddReceived (int (length payload)) (stats (relay s))"
    and "buffer s' = payload @ drop (length payload) (buffer s)"
    and "lpc s' = L_Select"
  using assms
  by (auto simp: step_def loop_read_def Let_def forward_all_tasks forward_all_frame helper_defs
      split: if_splits)

lemma step_read_ok_enabled:
  assumes "lpc s = L_Read" and "spc s \<noteq> S_Returned" and "length payload \<le> length (buffer s)"
  shows "\<exists>s'. step s (Loop_Read (Read_ok payload src)) = Some s'"
  using assms by (simp add: step_def loop_read_def Let_def)

lemma ex_reading_reachable: "run (Start ex_relay) [Loop_Make, Loop_Select] = Some ex_reading"
  by (simp add: step_def loop_make_def loop_select_def ex_defs)

section \<open>The claims\<close>

text \<open>
  C1. When the receive loop has read a datagram from source \<open>S\<close>, it starts one forward
  operation for each configured target whose IP or port differs from those of \<open>S\<close>, in
  the order of the configuration and each for the length of the datagram, and none for
  a target whose IP and port both equal those of \<open>S\<close>. The forward operations started
  earlier stay as they are, and the loop itself writes nothing to the network. The read
  is always handled: the step exists whenever the loop waits in the read and the
  datagram fits the buffer.
\<close>

theorem receive_forwards_to_all_but_source:
  assumes "lpc s = L_Read" and "spc s \<noteq> S_Returned"
    and "length payload \<le> length (buffer s)"
  shows "\<exists>s'. step s (Loop_Read (Read_ok payload src)) = Some s'
      \<and> take (length (tasks s)) (tasks s') = tasks s
      \<and> map target (drop (length (tasks s)) (tasks s')) =
          filter (\<lambda>t. \<not> (IP_Equal (IP src) (IP t) \<and> Port src = Port t))
            (targetConns (relay s))
      \<and> (\<forall>t\<in>set (targetConns (relay s)).
            (t \<in> target ` set (drop (length (tasks s)) (tasks s'))) =
            (\<not> (IP_Equal (IP src) (IP t) \<and> Port src = Port t)))
      \<and> (\<forall>k\<in>set (drop (length (tasks s)) (tasks s')). data_len k = length payload)
      \<and> sent s' = sent s"
proof -
  from step_read_ok_enabled [OF assms]
  obtain s' where st: "step s (Loop_Read (Read_ok payload src)) = Some s'" ..
  let ?new = "map (\<lambda>t. \<lparr>data_len = length payload, target = t\<rparr>)
                (filter (\<lambda>t. \<not> is_source src t) (targetConns (relay s)))"
  have tk: "tasks s' = tasks s @ ?new" by (rule step_read_ok(1) [OF st])
  have new: "drop (length (tasks s)) (tasks s') = ?new" by (simp add: tk)
  have tgt: "map target ?new = filter (\<lambda>t. \<not> is_source src t) (targetConns (relay s))"
    by (simp add: comp_def)
  have "take (length (tasks s)) (tasks s') = tasks s" by (simp add: tk)
  moreover have "map target (drop (length (tasks s)) (tasks s')) =
      filter (\<lambda>t. \<not> (IP_Equal (IP src) (IP t) \<and> Port src = Port t)) (targetConns (relay s))"
    using tgt by (simp add: new is_source_def)
  moreover have "\<forall>t\<in>set (targetConns (relay s)).
      (t \<in> target ` set (drop (length (tasks s)) (tasks s'))) =
      (\<not> (IP_Equal (IP src) (IP t) \<and> Port src = Port t))"
  proof
    fix t assume "t \<in> set (targetConns (relay s))"
    moreover have "target ` set ?new = set (map target ?new)" by (simp only: set_map)
    ultimately show "(t \<in> target ` set (drop (length (tasks s)) (tasks s'))) =
        (\<not> (IP_Equal (IP src) (IP t) \<and> Port src = Port t))"
      by (simp only: new tgt) (simp add: is_source_def)
  qed
  moreover have "\<forall>k\<in>set (drop (length (tasks s)) (tasks s')). data_len k = length payload"
    by (auto simp: new)
  moreover have "sent s' = sent s" by (rule step_read_ok(2) [OF st])
  ultimately show ?thesis using st by blast
qed

text \<open>
  In the example a datagram of three bytes from \<^verbatim>\<open>10.0.0.5:9999\<close>, the first target, is
  forwarded to the second target only.
\<close>

theorem receive_forwards_to_all_but_source_witness:
  "lpc ex_reading = L_Read \<and> spc ex_reading \<noteq> S_Returned
   \<and> length [1, 2, 3 :: byte] \<le> length (buffer ex_reading)
   \<and> map_option (map target \<circ> tasks)
        (step ex_reading (Loop_Read (Read_ok [1, 2, 3] ex_target_a))) = Some [ex_target_b]"
proof -
  have h: "lpc ex_reading = L_Read" "spc ex_reading \<noteq> S_Returned"
    "length [1, 2, 3 :: byte] \<le> length (buffer ex_reading)"
    by (simp_all add: ex_defs)
  from receive_forwards_to_all_but_source [OF h, of ex_target_a]
  obtain s' where "step ex_reading (Loop_Read (Read_ok [1, 2, 3] ex_target_a)) = Some s'"
    and "map target (drop (length (tasks ex_reading)) (tasks s')) =
          filter (\<lambda>t. \<not> (IP_Equal (IP ex_target_a) (IP t) \<and> Port ex_target_a = Port t))
            (targetConns (relay ex_reading))"
    by blast
  then have "map_option (map target \<circ> tasks)
      (step ex_reading (Loop_Read (Read_ok [1, 2, 3] ex_target_a))) = Some [ex_target_b]"
    by (simp add: ex_defs IP_Equal_def)
  with h show ?thesis by blast
qed

end
